theory Spec2Isabelle
  imports Main "HOL-Library.Word" "HOL-Library.AList"
begin

section \<open>Go values, errors and panics\<close>

text \<open>
  A Go \<open>string\<close> and a \<open>[]byte\<close> are byte sequences: both are \<open>string\<close> here.
  \<open>int64\<close> is a 64-bit word. Go's \<open>int\<close> is taken to be 64 bits wide (a 64-bit
  platform), so the conversions \<open>int(value)\<close> and \<open>int64(i)\<close> of metrics.go are the
  identity.
\<close>

type_synonym go_int = "64 word"

text \<open>
  The dynamic values that reach a handler through its \<open>data interface{}\<close> parameter,
  by dynamic type: \<open>string\<close>, \<open>int64\<close>, \<open>[]byte\<close>, \<open>[]interface{}\<close>, \<open>[][]byte\<close>
  and the nil interface.
\<close>

datatype go_value =
    GoString string
  | GoInt64 go_int
  | GoBytes string
  | GoInterfaceSlice "go_value list"
  | GoByteSlices "string list"
  | GoNil

text \<open>
  A value a goroutine panics with. The first four are raised by the Go runtime (an index
  out of range, a failed single-valued type assertion, \<open>close\<close> of a nil channel,
  \<open>close\<close> of a closed channel); \<open>PanicValue\<close> is any other value.
\<close>

datatype go_panic =
    IndexOutOfRange
  | TypeAssertionFailed
  | CloseOfNilChannel
  | CloseOfClosedChannel
  | PanicValue string

text \<open>
  Errors are compared by identity in the source (\<open>err == errQuit\<close>, \<open>err != io.EOF\<close>),
  so the package-level error variables are constructors of their own:
  \<open>errCmdNotFound = errors.New("invalid command format")\<close>,
  \<open>errQuit = errors.New("client quit")\<close> and \<open>io.EOF\<close>. \<open>errors_New s\<close> is any other
  error value with text \<open>s\<close>; \<open>errors_New_Sprintf_v e\<close> is
  \<open>errors.New(fmt.Sprintf("%v", e))\<close> for a recovered panic value \<open>e\<close>.
\<close>

datatype go_error =
    errCmdNotFound
  | errQuit
  | io_EOF
  | errors_New string
  | errors_New_Sprintf_v go_panic

text \<open>A call either returns or panics.\<close>

datatype 'a outcome = Returned 'a | Panicked go_panic

text \<open>Single-valued type assertions \<open>x.(string)\<close> and \<open>x.(int64)\<close>: a panic on any other
  dynamic type.\<close>

definition assert_string :: "go_value \<Rightarrow> string outcome" where
  "assert_string x = (case x of GoString s \<Rightarrow> Returned s | _ \<Rightarrow> Panicked TypeAssertionFailed)"

definition assert_int64 :: "go_value \<Rightarrow> go_int outcome" where
  "assert_int64 x = (case x of GoInt64 i \<Rightarrow> Returned i | _ \<Rightarrow> Panicked TypeAssertionFailed)"

text \<open>The two-valued assertion \<open>d, _ := data.([]interface{})\<close>: the zero value (a nil
  slice, of length 0) on any other dynamic type.\<close>

definition assert_interface_slice :: "go_value \<Rightarrow> go_value list" where
  "assert_interface_slice data = (case data of GoInterfaceSlice d \<Rightarrow> d | _ \<Rightarrow> [])"

section \<open>The client connection\<close>

text \<open>
  Modelled from the spec: the methods of \<open>server.NetworkClient\<close> /
  \<open>server.ProtocolClient\<close> are not under src/. The spec has the encoding operations
  append to the connection's output buffer and \<open>flush\<close> as a distinct operation; the
  source ignores what they return. A client is the sequence of calls made on it, in
  order.
\<close>

datatype client_call =
    WriteInt64 go_int
  | WriteString string
  | WriteError go_error
  | WriteJson "(string \<times> go_int) list"
  | Flush
  | Close

type_synonym NetworkClient = "client_call list"

definition call :: "client_call \<Rightarrow> NetworkClient \<Rightarrow> NetworkClient" where
  "call op client = client @ [op]"

section \<open>backends/stats/metrics.go\<close>

text \<open>
  The \<open>Metrics\<close> interface. Each method acts on the state \<open>'m\<close> of the object behind the
  interface value and returns its results with the new state; a Go \<open>error\<close> result is
  \<open>None\<close> for nil.
\<close>

record 'm Metrics =
  mem_Counter :: "string \<Rightarrow> 'm \<Rightarrow> (go_int \<times> go_error option) \<times> 'm"
  mem_CounterBy :: "string \<Rightarrow> go_int \<Rightarrow> 'm \<Rightarrow> (go_int \<times> go_error option) \<times> 'm"
  mem_FlushCounters :: "'m \<Rightarrow> go_error option \<times> 'm"
  mem_Counters :: "'m \<Rightarrow> ((string \<times> go_int) list \<times> go_error option) \<times> 'm"
  mem_Incr :: "string \<Rightarrow> 'm \<Rightarrow> (go_int \<times> go_error option) \<times> 'm"
  mem_IncrBy :: "string \<Rightarrow> go_int \<Rightarrow> 'm \<Rightarrow> (go_int \<times> go_error option) \<times> 'm"
  mem_Decr :: "string \<Rightarrow> 'm \<Rightarrow> (go_int \<times> go_error option) \<times> 'm"
  mem_DecrBy :: "string \<Rightarrow> go_int \<Rightarrow> 'm \<Rightarrow> (go_int \<times> go_error option) \<times> 'm"
  mem_Del :: "string \<Rightarrow> 'm \<Rightarrow> (go_int \<times> go_error option) \<times> 'm"
  mem_Exists :: "string \<Rightarrow> 'm \<Rightarrow> (go_int \<times> go_error option) \<times> 'm"
  mem_Get :: "string \<Rightarrow> 'm \<Rightarrow> (go_int \<times> go_error option) \<times> 'm"
  mem_Set :: "string \<Rightarrow> go_int \<Rightarrow> 'm \<Rightarrow> (go_int \<times> go_error option) \<times> 'm"
  mem_SetNx :: "string \<Rightarrow> go_int \<Rightarrow> 'm \<Rightarrow> (go_int \<times> go_error option) \<times> 'm"

text \<open>The channel held in \<open>stats.quit\<close>: nil, open, or closed.\<close>

datatype chan = NilChan | OpenChan | ClosedChan

text \<open>\<open>time.NewTicker(d)\<close>, with \<open>d\<close> in nanoseconds.\<close>

datatype Ticker = NewTicker int

definition Second :: int where
  "Second = 1000000000"

text \<open>\<open>StatsBackend\<close>: \<open>mem\<close> holds the state of the object behind the \<open>Metrics\<close>
  interface value; its methods are passed beside it.\<close>

record 'm StatsBackend =
  quit :: chan
  timer :: "Ticker option"
  mem :: 'm

type_synonym 'b handler_result = "go_error option outcome \<times> NetworkClient \<times> 'b"

definition FlushInt :: "go_int \<Rightarrow> go_error option \<Rightarrow> NetworkClient \<Rightarrow> go_error option \<times> NetworkClient" where
  "FlushInt i err client =
     (case err of
        Some e \<Rightarrow> (Some e, client)
      | None \<Rightarrow> (None, call Flush (call (WriteInt64 i) client)))"

text \<open>The tail shared by the handlers: \<open>i, err := stats.mem.M(...)\<close> followed by
  \<open>return stats.FlushInt(i, err, client)\<close>.\<close>

definition return_FlushInt ::
  "(go_int \<times> go_error option) \<times> 'm \<Rightarrow> NetworkClient \<Rightarrow> 'm StatsBackend \<Rightarrow> 'm StatsBackend handler_result" where
  "return_FlushInt r client stats =
     (case r of ((i, err), m') \<Rightarrow>
        (case FlushInt i err client of (res, client') \<Rightarrow>
           (Returned res, client', stats\<lparr>mem := m'\<rparr>)))"

text \<open>The branch of a handler's arity guard: \<open>client.WriteError(errors.New(msg))\<close>,
  \<open>client.Flush()\<close>, \<open>return nil\<close>.\<close>

definition arity_error :: "string \<Rightarrow> NetworkClient \<Rightarrow> 'b \<Rightarrow> 'b handler_result" where
  "arity_error msg client stats =
     (Returned None, call Flush (call (WriteError (errors_New msg)) client), stats)"

definition stats_Set ::
  "'m Metrics \<Rightarrow> go_value \<Rightarrow> NetworkClient \<Rightarrow> 'm StatsBackend \<Rightarrow> 'm StatsBackend handler_result" where
  "stats_Set M data client stats =
     (let d = assert_interface_slice data in
      if length d < 2 then
        arity_error ''SET takes at least 2 parameters (i.e. key to set and value to set to)'' client stats
      else
        (case assert_string (d ! 0) of
           Panicked e \<Rightarrow> (Panicked e, client, stats)
         | Returned key \<Rightarrow>
             (case assert_int64 (d ! 1) of
                Panicked e \<Rightarrow> (Panicked e, client, stats)
              | Returned val \<Rightarrow>
                  return_FlushInt (mem_Set M key val (mem stats)) client stats)))"

definition stats_SetNx ::
  "'m Metrics \<Rightarrow> go_value \<Rightarrow> NetworkClient \<Rightarrow> 'm StatsBackend \<Rightarrow> 'm StatsBackend handler_result" where
  "stats_SetNx M data client stats =
     (let d = assert_interface_slice data in
      if length d < 2 then
        arity_error ''SETNX takes at least 2 parameters (i.e. key to set and value to set to, if not already set)'' client stats
      else
        (case assert_string (d ! 0) of
           Panicked e \<Rightarrow> (Panicked e, client, stats)
         | Returned key \<Rightarrow>
             (case assert_int64 (d ! 1) of
                Panicked e \<Rightarrow> (Panicked e, client, stats)
              | Returned val \<Rightarrow>
                  return_FlushInt (mem_SetNx M key val (mem stats)) client stats)))"

definition stats_Get ::
  "'m Metrics \<Rightarrow> go_value \<Rightarrow> NetworkClient \<Rightarrow> 'm StatsBackend \<Rightarrow> 'm StatsBackend handler_result" where
  "stats_Get M data client stats =
     (let d = assert_interface_slice data in
      if length d = 0 then
        arity_error ''GET takes at least 1 parameter (i.e. key to get)'' client stats
      else
        (case assert_string (d ! 0) of
           Panicked e \<Rightarrow> (Panicked e, client, stats)
         | Returned key \<Rightarrow> return_FlushInt (mem_Get M key (mem stats)) client stats))"

definition stats_Exists ::
  "'m Metrics \<Rightarrow> go_value \<Rightarrow> NetworkClient \<Rightarrow> 'm StatsBackend \<Rightarrow> 'm StatsBackend handler_result" where
  "stats_Exists M data client stats =
     (let d = assert_interface_slice data in
      if length d = 0 then
        arity_error ''EXISTS takes at least 1 parameter (i.e. key to find)'' client stats
      else
        (case assert_string (d ! 0) of
           Panicked e \<Rightarrow> (Panicked e, client, stats)
         | Returned key \<Rightarrow> return_FlushInt (mem_Exists M key (mem stats)) client stats))"

definition stats_Del ::
  "'m Metrics \<Rightarrow> go_value \<Rightarrow> NetworkClient \<Rightarrow> 'm StatsBackend \<Rightarrow> 'm StatsBackend handler_result" where
  "stats_Del M data client stats =
     (let d = assert_interface_slice data in
      if length d = 0 then
        arity_error ''DEL takes at least 1 parameter (i.e. key to delete)'' client stats
      else
        (case assert_string (d ! 0) of
           Panicked e \<Rightarrow> (Panicked e, client, stats)
         | Returned key \<Rightarrow> return_FlushInt (mem_Del M key (mem stats)) client stats))"

definition stats_Incr ::
  "'m Metrics \<Rightarrow> go_value \<Rightarrow> NetworkClient \<Rightarrow> 'm StatsBackend \<Rightarrow> 'm StatsBackend handler_result" where
  "stats_Incr M data client stats =
     (let d = assert_interface_slice data in
      if length d = 0 then
        arity_error ''INCR takes at least 1 parameter (i.e. key to increment)'' client stats
      else
        (case assert_string (d ! 0) of
           Panicked e \<Rightarrow> (Panicked e, client, stats)
         | Returned key \<Rightarrow>
             (let vals = drop 1 d in
              if length vals > 0 then
                (case assert_int64 (vals ! 0) of
                   Panicked e \<Rightarrow> (Panicked e, client, stats)
                 | Returned val \<Rightarrow>
                     return_FlushInt (mem_IncrBy M key val (mem stats)) client stats)
              else return_FlushInt (mem_Incr M key (mem stats)) client stats)))"

definition stats_Decr ::
  "'m Metrics \<Rightarrow> go_value \<Rightarrow> NetworkClient \<Rightarrow> 'm StatsBackend \<Rightarrow> 'm StatsBackend handler_result" where
  "stats_Decr M data client stats =
     (let d = assert_interface_slice data in
      if length d = 0 then
        arity_error ''DECR takes at least 1 parameter (i.e. key to increment)'' client stats
      else
        (case assert_string (d ! 0) of
           Panicked e \<Rightarrow> (Panicked e, client, stats)
         | Returned key \<Rightarrow>
             (let vals = drop 1 d in
              if length vals > 0 then
                (case assert_int64 (vals ! 0) of
                   Panicked e \<Rightarrow> (Panicked e, client, stats)
                 | Returned val \<Rightarrow>
                     return_FlushInt (mem_DecrBy M key val (mem stats)) client stats)
              else return_FlushInt (mem_Decr M key (mem stats)) client stats)))"

definition stats_Count ::
  "'m Metrics \<Rightarrow> go_value \<Rightarrow> NetworkClient \<Rightarrow> 'm StatsBackend \<Rightarrow> 'm StatsBackend handler_result" where
  "stats_Count M data client stats =
     (let d = assert_interface_slice data in
      if length d = 0 then
        arity_error ''COUNTER takes at least 1 parameter (i.e. key to increment)'' client stats
      else
        (case assert_string (d ! 0) of
           Panicked e \<Rightarrow> (Panicked e, client, stats)
         | Returned key \<Rightarrow>
             (let vals = drop 1 d in
              if length vals > 0 then
                (case assert_int64 (vals ! 0) of
                   Panicked e \<Rightarrow> (Panicked e, client, stats)
                 | Returned val \<Rightarrow>
                     return_FlushInt (mem_CounterBy M key val (mem stats)) client stats)
              else return_FlushInt (mem_Counter M key (mem stats)) client stats)))"

definition stats_Counters ::
  "'m Metrics \<Rightarrow> go_value \<Rightarrow> NetworkClient \<Rightarrow> 'm StatsBackend \<Rightarrow> 'm StatsBackend handler_result" where
  "stats_Counters M data client stats =
     (case mem_Counters M (mem stats) of ((results, err), m') \<Rightarrow>
        (case err of
           Some e \<Rightarrow> (Returned None, call Flush (call (WriteError e) client), stats\<lparr>mem := m'\<rparr>)
         | None \<Rightarrow> (Returned None, call Flush (call (WriteJson results) client), stats\<lparr>mem := m'\<rparr>)))"

text \<open>
  For the statements below: what is expected of a handler that replies with an integer,
  by the result \<open>((i, err), m')\<close> of the store method it called. With a nil error
  the client gets \<open>i\<close> as an integer reply and a flush, and the handler returns
  nil; otherwise nothing is written and the error is returned. Either way the store
  is left as the method left it.
\<close>

definition integer_reply ::
  "(go_int \<times> go_error option) \<times> 'm \<Rightarrow> NetworkClient \<Rightarrow> 'm StatsBackend \<Rightarrow> 'm StatsBackend handler_result" where
  "integer_reply r client stats =
     (case r of
        ((i, None), m') \<Rightarrow> (Returned None, client @ [WriteInt64 i, Flush], stats\<lparr>mem := m'\<rparr>)
      | ((i, Some e), m') \<Rightarrow> (Returned (Some e), client, stats\<lparr>mem := m'\<rparr>))"

section \<open>The command registry\<close>

text \<open>
  \<open>server.Command{name, description, usage}\<close> and \<open>server.Handler\<close>. A handler gets
  the arguments as an \<open>interface{}\<close> value and the client; it acts on the client and on
  the state \<open>'b\<close> of the backend it is bound to, and returns an error (\<open>None\<close> for nil)
  or panics.
\<close>

record Command =
  Name :: string
  Description :: string
  Usage :: string

type_synonym 'b Handler = "go_value \<Rightarrow> NetworkClient \<Rightarrow> 'b \<Rightarrow> 'b handler_result"

text \<open>\<open>server.BroadcastEvent{level, message, err, buf}\<close>; a nil error or buffer is
  \<open>None\<close>.\<close>

record BroadcastEvent =
  Level :: string
  Message :: string
  Err :: "go_error option"
  Context :: "string option"

text \<open>\<open>server.BroadcastContext\<close>: the registry \<open>Commands\<close> (a Go map) and the events sent
  on the channel \<open>Events\<close> so far, oldest first.\<close>

record 'b BroadcastContext =
  Commands :: "string \<rightharpoonup> 'b Handler"
  Events :: "BroadcastEvent list"

definition send_event :: "BroadcastEvent \<Rightarrow> 'b BroadcastContext \<Rightarrow> 'b BroadcastContext" where
  "send_event ev ctx = ctx\<lparr>Events := Events ctx @ [ev]\<rparr>"

text \<open>
  Modelled from the spec: \<open>RegisterCommand\<close> of the server package is not under src/.
  The spec's \<open>register(descriptor, handler)\<close> adds an entry mapping the command name
  to its handler; the names metrics.go registers are upper-case as written.
\<close>

definition RegisterCommand :: "Command \<Rightarrow> 'b Handler \<Rightarrow> 'b BroadcastContext \<Rightarrow> 'b BroadcastContext" where
  "RegisterCommand cmd handler app = app\<lparr>Commands := (Commands app)(Name cmd \<mapsto> handler)\<rparr>"

definition commandHelp :: "Command list" where
  "commandHelp =
     [\<lparr>Name = ''COUNT'', Description = ''Increments a key that resets itself to 0 on each flush routine.'', Usage = ''COUNT foo [124]''\<rparr>,
      \<lparr>Name = ''COUNTERS'', Description = ''Returns the list of active counters.'', Usage = ''''\<rparr>,
      \<lparr>Name = ''INCR'', Description = ''Increments a key by the specified value or by default 1.'', Usage = ''INCR key [1]''\<rparr>,
      \<lparr>Name = ''DECR'', Description = ''Decrements a key by the specified value or by default 1.'', Usage = ''DECR key [1]''\<rparr>,
      \<lparr>Name = ''DEL'', Description = ''Deletes a key from the values or counters list or both.'', Usage = ''DEL key''\<rparr>,
      \<lparr>Name = ''EXISTS'', Description = ''Determines if the given key exists from the values.'', Usage = ''EXISTS key''\<rparr>,
      \<lparr>Name = ''GET'', Description = ''Gets the specified key from the values.'', Usage = ''GET key''\<rparr>,
      \<lparr>Name = ''SET'', Description = ''Sets the specified key to the specified value in values.'', Usage = ''SET key 1234''\<rparr>,
      \<lparr>Name = ''SETNX'', Description = ''Sets the specified key to the given value only if the key is not already set.'', Usage = ''SETNX key 1234''\<rparr>]"

definition commands :: "'m Metrics \<Rightarrow> 'm StatsBackend Handler list" where
  "commands M =
     [stats_Count M, stats_Counters M, stats_Incr M, stats_Decr M, stats_Del M,
      stats_Exists M, stats_Get M, stats_Set M, stats_SetNx M]"

text \<open>
  \<open>RegisterBackend\<close>. \<open>NewMemoryBackend\<close> is not under src/: what it returns (the
  \<open>Metrics\<close> methods with the state of the new store, and an error) is the parameter
  \<open>newMemoryBackend\<close>. The result is the Go pair (backend, error) with the registry
  after the calls of \<open>app.RegisterCommand\<close>.
\<close>

definition RegisterBackend ::
  "('m Metrics \<times> 'm) \<times> go_error option \<Rightarrow> 'm StatsBackend BroadcastContext \<Rightarrow>
     ('m StatsBackend option \<times> go_error option) \<times> 'm StatsBackend BroadcastContext" where
  "RegisterBackend newMemoryBackend app =
     (case newMemoryBackend of ((M, m), err) \<Rightarrow>
        (case err of
           Some e \<Rightarrow> ((None, Some e), app)
         | None \<Rightarrow>
             ((Some \<lparr>quit = NilChan, timer = None, mem = m\<rparr>, None),
              foldl (\<lambda>a i. RegisterCommand (commandHelp ! i) (commands M ! i) a) app
                [0..<length commandHelp])))"

text \<open>
  \<open>Load\<close> and \<open>Unload\<close>. The goroutine \<open>Load\<close> starts runs beside the caller and is
  not part of this sequential model; \<open>Load\<close> itself stores a new channel and a new
  ticker and returns nil. \<open>close\<close> panics on a nil and on a closed channel.
\<close>

definition Load :: "'m StatsBackend \<Rightarrow> go_error option \<times> 'm StatsBackend" where
  "Load stats = (None, stats\<lparr>quit := OpenChan, timer := Some (NewTicker (5 * Second))\<rparr>)"

definition Unload :: "'m StatsBackend \<Rightarrow> go_error option outcome \<times> 'm StatsBackend" where
  "Unload stats =
     (case quit stats of
        NilChan \<Rightarrow> (Panicked CloseOfNilChannel, stats)
      | ClosedChan \<Rightarrow> (Panicked CloseOfClosedChannel, stats)
      | OpenChan \<Rightarrow> (Returned None, stats\<lparr>quit := ClosedChan\<rparr>))"

text \<open>A host calling the two lifecycle hooks one after the other on one backend; the
  first panic ends the sequence, as nothing recovers it.\<close>

datatype lifecycle_call = CallLoad | CallUnload

fun lifecycle :: "lifecycle_call list \<Rightarrow> 'm StatsBackend \<Rightarrow> go_panic + 'm StatsBackend" where
  "lifecycle [] stats = Inr stats"
| "lifecycle (CallLoad # cs) stats = lifecycle cs (snd (Load stats))"
| "lifecycle (CallUnload # cs) stats =
     (case Unload stats of
        (Panicked e, stats') \<Rightarrow> Inl e
      | (Returned err, stats') \<Rightarrow> lifecycle cs stats')"

section \<open>The redis protocol: handleData and RunClient\<close>

text \<open>
  \<open>strings.ToUpper\<close> is Go's library function, a parameter \<open>ToUpper\<close> of the model.
  \<open>data[0]\<close> panics on an empty request. The handler gets \<open>data[1:]\<close>, a \<open>[][]byte\<close>.
\<close>

definition handleData ::
  "(string \<Rightarrow> string) \<Rightarrow> 'b BroadcastContext \<Rightarrow> string list \<Rightarrow> NetworkClient \<Rightarrow> 'b \<Rightarrow> 'b handler_result" where
  "handleData ToUpper ctx data client b =
     (case data of
        [] \<Rightarrow> (Panicked IndexOutOfRange, client, b)
      | name # args \<Rightarrow>
          (let cmd = ToUpper name in
           if cmd = ''QUIT'' then (Returned (Some errQuit), client, b)
           else
             (case Commands ctx cmd of
                None \<Rightarrow> (Returned (Some errCmdNotFound), client, b)
              | Some handler \<Rightarrow> handler (GoByteSlices args) client b)))"

text \<open>
  What one call of \<open>client.ReadBulkPayload()\<close> does (the decoder is not under src/): it
  returns a request, returns an error, or panics.
\<close>

datatype read_result = ReadOk "string list" | ReadErr go_error | ReadPanic go_panic

text \<open>The state a session works on: the context (registry and events sent), the client
  and the backend.\<close>

type_synonym 'b session = "'b BroadcastContext \<times> NetworkClient \<times> 'b"

text \<open>
  One pass through the body of the \<open>for\<close> loop of \<open>RunClient\<close>, given what the read
  did: the loop goes round again (\<open>Continue\<close>, the session stays Running), or control
  leaves the loop by \<open>return\<close> or by a panic (\<open>Leave\<close>).
\<close>

datatype 'b iteration = Continue "'b session" | Leave "unit outcome \<times> 'b session"

definition RunClient_iteration ::
  "(string \<Rightarrow> string) \<Rightarrow> read_result \<Rightarrow> 'b BroadcastContext \<Rightarrow> NetworkClient \<Rightarrow> 'b \<Rightarrow> 'b iteration" where
  "RunClient_iteration ToUpper rd ctx client b =
     (case rd of
        ReadPanic e \<Rightarrow> Leave (Panicked e, ctx, client, b)
      | ReadErr err \<Rightarrow>
          Leave (Returned (),
            (if err \<noteq> io_EOF
             then send_event \<lparr>Level = ''error'', Message = ''read error'', Err = Some err, Context = None\<rparr> ctx
             else ctx),
            client, b)
      | ReadOk data \<Rightarrow>
          (case handleData ToUpper ctx data client b of
             (Panicked e, client', b') \<Rightarrow> Leave (Panicked e, ctx, client', b')
           | (Returned None, client', b') \<Rightarrow> Continue (ctx, client', b')
           | (Returned (Some err), client', b') \<Rightarrow>
               (if err = errQuit
                then Leave (Returned (), ctx, call Flush (call (WriteString ''OK'') client'), b')
                else Continue
                       (send_event \<lparr>Level = ''error'', Message = ''accept error'', Err = Some err, Context = None\<rparr> ctx,
                        call Flush (call (WriteError err) client'), b'))))"

text \<open>
  The loop runs over the results of the successive reads. When they are used up the
  next read blocks and the loop does not return (\<open>None\<close>).
\<close>

fun RunClient_loop ::
  "(string \<Rightarrow> string) \<Rightarrow> read_result list \<Rightarrow> 'b BroadcastContext \<Rightarrow> NetworkClient \<Rightarrow> 'b \<Rightarrow>
     (unit outcome \<times> 'b session) option" where
  "RunClient_loop ToUpper [] ctx client b = None"
| "RunClient_loop ToUpper (rd # reads) ctx client b =
     (case RunClient_iteration ToUpper rd ctx client b of
        Leave r \<Rightarrow> Some r
      | Continue (ctx', client', b') \<Rightarrow> RunClient_loop ToUpper reads ctx' client' b')"

text \<open>
  The deferred function of \<open>RunClient\<close>: \<open>recover()\<close> stops a panic of the loop and
  reports it with the first 4096 bytes of the goroutine's stack trace (\<open>stack\<close> is what
  \<open>runtime.Stack\<close> has to write); then the client is closed. \<open>p.ctx\<close> is taken to be
  initialised and its channel \<open>Events\<close> to accept the event.
\<close>

definition RunClient_deferred ::
  "string \<Rightarrow> unit outcome \<times> 'b session \<Rightarrow> unit outcome \<times> 'b session" where
  "RunClient_deferred stack r =
     (case r of
        (Panicked e, ctx, client, b) \<Rightarrow>
          (Returned (),
           send_event \<lparr>Level = ''fatal'', Message = ''client run panic'',
                       Err = Some (errors_New_Sprintf_v e), Context = Some (take 4096 stack)\<rparr> ctx,
           call Close client, b)
      | (Returned u, ctx, client, b) \<Rightarrow> (Returned (), ctx, call Close client, b))"

definition RunClient ::
  "string \<Rightarrow> (string \<Rightarrow> string) \<Rightarrow> read_result list \<Rightarrow> 'b BroadcastContext \<Rightarrow> NetworkClient \<Rightarrow> 'b \<Rightarrow>
     (unit outcome \<times> 'b session) option" where
  "RunClient stack ToUpper reads ctx client b =
     map_option (RunClient_deferred stack) (RunClient_loop ToUpper reads ctx client b)"

section \<open>Concrete instances for evaluation\<close>

text \<open>The case mapping of \<open>strings.ToUpper\<close> on ASCII letters; other bytes are kept.\<close>

definition ascii_ToUpper :: "string \<Rightarrow> string" where
  "ascii_ToUpper s =
     map (\<lambda>c. let n = (of_char c :: nat) in if 97 \<le> n \<and> n \<le> 122 then char_of (n - 32) else c) s"

text \<open>
  Modelled from the spec: the in-memory \<open>Metrics\<close> implementation that
  \<open>NewMemoryBackend\<close> returns is not under src/. The spec has a value store and a
  separate counters map from keys to integers; \<open>Set\<close> writes and returns the new
  value, \<open>SetNx\<close> writes only an absent key and returns 1 or 0, \<open>Get\<close> returns the
  value or a not-found condition, \<open>Exists\<close> and \<open>Del\<close> return presence and the
  count removed, \<open>Incr\<close>/\<open>Decr\<close> and \<open>Counter\<close> add a delta (1 by default) and
  return the resulting value, \<open>Counters\<close> returns a snapshot and \<open>FlushCounters\<close>
  zeroes the counters.
\<close>

record MemoryBackend =
  vals :: "(string \<times> go_int) list"
  counters :: "(string \<times> go_int) list"

text \<open>Modelled from the spec: a key that was never written counts from 0.\<close>

definition lookup0 :: "(string \<times> go_int) list \<Rightarrow> string \<Rightarrow> go_int" where
  "lookup0 al k = (case map_of al k of Some v \<Rightarrow> v | None \<Rightarrow> 0)"

text \<open>Modelled from the spec: \<open>IncrBy\<close> of the in-memory store (not under src/) adds the
  delta to the value under the key, creating it if absent, and returns the result.\<close>

definition memory_IncrBy :: "string \<Rightarrow> go_int \<Rightarrow> MemoryBackend \<Rightarrow> (go_int \<times> go_error option) \<times> MemoryBackend" where
  "memory_IncrBy k n m =
     (let v = lookup0 (vals m) k + n in ((v, None), m\<lparr>vals := AList.update k v (vals m)\<rparr>))"

text \<open>Modelled from the spec: \<open>CounterBy\<close> of the in-memory store (not under src/), the
  same on the counters map.\<close>

definition memory_CounterBy :: "string \<Rightarrow> go_int \<Rightarrow> MemoryBackend \<Rightarrow> (go_int \<times> go_error option) \<times> MemoryBackend" where
  "memory_CounterBy k n m =
     (let v = lookup0 (counters m) k + n in ((v, None), m\<lparr>counters := AList.update k v (counters m)\<rparr>))"

text \<open>Modelled from the spec: the methods of the in-memory store (not under src/), as
  described above; \<open>Decr\<close> and \<open>DecrBy\<close> subtract by adding the negated delta.\<close>

definition memory_Metrics :: "MemoryBackend Metrics" where
  "memory_Metrics =
     \<lparr>mem_Counter = (\<lambda>k. memory_CounterBy k 1),
      mem_CounterBy = memory_CounterBy,
      mem_FlushCounters = (\<lambda>m. (None, m\<lparr>counters := map (\<lambda>(k, v). (k, 0)) (counters m)\<rparr>)),
      mem_Counters = (\<lambda>m. ((counters m, None), m)),
      mem_Incr = (\<lambda>k. memory_IncrBy k 1),
      mem_IncrBy = memory_IncrBy,
      mem_Decr = (\<lambda>k. memory_IncrBy k (- 1)),
      mem_DecrBy = (\<lambda>k n. memory_IncrBy k (- n)),
      mem_Del = (\<lambda>k m. ((if map_of (vals m) k = None then 0 else 1, None),
                          m\<lparr>vals := AList.delete k (vals m)\<rparr>)),
      mem_Exists = (\<lambda>k m. ((if map_of (vals m) k = None then 0 else 1, None), m)),
      mem_Get = (\<lambda>k m. (case map_of (vals m) k of
                           Some v \<Rightarrow> ((v, None), m)
                         | None \<Rightarrow> ((0, Some (errors_New ''not found'')), m))),
      mem_Set = (\<lambda>k v m. ((v, None), m\<lparr>vals := AList.update k v (vals m)\<rparr>)),
      mem_SetNx = (\<lambda>k v m. (if map_of (vals m) k = None
                              then ((1, None), m\<lparr>vals := AList.update k v (vals m)\<rparr>)
                              else ((0, None), m)))\<rparr>"

text \<open>Modelled from the spec: the store \<open>NewMemoryBackend\<close> (not under src/) starts
  with, holding no key.\<close>

definition memory_empty :: MemoryBackend where
  "memory_empty = \<lparr>vals = [], counters = []\<rparr>"

text \<open>A context with no command registered and no event sent.\<close>

definition empty_context :: "'b BroadcastContext" where
  "empty_context = \<lparr>Commands = Map.empty, Events = []\<rparr>"

section \<open>Basic facts\<close>

lemma return_FlushInt_eq: "return_FlushInt r client stats = integer_reply r client stats"
  by (simp add: return_FlushInt_def integer_reply_def FlushInt_def call_def
      split: prod.splits option.splits)

lemma arity_error_eq:
  "arity_error msg client stats = (Returned None, client @ [WriteError (errors_New msg), Flush], stats)"
  by (simp add: arity_error_def call_def)

lemma assert_interface_slice_bytes: "assert_interface_slice (GoByteSlices args) = []"
  by (simp add: assert_interface_slice_def)

text \<open>The registry after \<open>RegisterBackend\<close>: nine entries over whatever was there.\<close>

lemma registered_Commands:
  "Commands (snd (RegisterBackend ((M, m), None) app)) =
     (Commands app)(''COUNT'' \<mapsto> stats_Count M, ''COUNTERS'' \<mapsto> stats_Counters M,
        ''INCR'' \<mapsto> stats_Incr M, ''DECR'' \<mapsto> stats_Decr M, ''DEL'' \<mapsto> stats_Del M,
        ''EXISTS'' \<mapsto> stats_Exists M, ''GET'' \<mapsto> stats_Get M, ''SET'' \<mapsto> stats_Set M,
        ''SETNX'' \<mapsto> stats_SetNx M)"
  by (simp add: RegisterBackend_def commandHelp_def commands_def RegisterCommand_def upt_rec)

lemma ascii_ToUpper_idem: "ascii_ToUpper (ascii_ToUpper s) = ascii_ToUpper s"
  by (induction s) (auto simp add: ascii_ToUpper_def Let_def)

lemma ascii_ToUpper_examples:
  "ascii_ToUpper ''SET'' = ''SET''"
  "ascii_ToUpper ''set'' = ''SET''"
  "ascii_ToUpper ''INCR'' = ''INCR''"
  "ascii_ToUpper ''DECR'' = ''DECR''"
  "ascii_ToUpper ''qUiT'' = ''QUIT''"
  "ascii_ToUpper ''FOO'' = ''FOO''"
  by code_simp+

text \<open>The arity guards of the eight handlers that take arguments.\<close>

lemma stats_arity:
  "length (assert_interface_slice data) < 2 \<Longrightarrow> stats_Set M data client stats =
     (Returned None, client @ [WriteError (errors_New
        ''SET takes at least 2 parameters (i.e. key to set and value to set to)''), Flush], stats)"
  "length (assert_interface_slice data) < 2 \<Longrightarrow> stats_SetNx M data client stats =
     (Returned None, client @ [WriteError (errors_New
        ''SETNX takes at least 2 parameters (i.e. key to set and value to set to, if not already set)''), Flush], stats)"
  "length (assert_interface_slice data) < 1 \<Longrightarrow> stats_Get M data client stats =
     (Returned None, client @ [WriteError (errors_New
        ''GET takes at least 1 parameter (i.e. key to get)''), Flush], stats)"
  "length (assert_interface_slice data) < 1 \<Longrightarrow> stats_Exists M data client stats =
     (Returned None, client @ [WriteError (errors_New
        ''EXISTS takes at least 1 parameter (i.e. key to find)''), Flush], stats)"
  "length (assert_interface_slice data) < 1 \<Longrightarrow> stats_Del M data client stats =
     (Returned None, client @ [WriteError (errors_New
        ''DEL takes at least 1 parameter (i.e. key to delete)''), Flush], stats)"
  "length (assert_interface_slice data) < 1 \<Longrightarrow> stats_Incr M data client stats =
     (Returned None, client @ [WriteError (errors_New
        ''INCR takes at least 1 parameter (i.e. key to increment)''), Flush], stats)"
  "length (assert_interface_slice data) < 1 \<Longrightarrow> stats_Decr M data client stats =
     (Returned None, client @ [WriteError (errors_New
        ''DECR takes at least 1 parameter (i.e. key to increment)''), Flush], stats)"
  "length (assert_interface_slice data) < 1 \<Longrightarrow> stats_Count M data client stats =
     (Returned None, client @ [WriteError (errors_New
        ''COUNTER takes at least 1 parameter (i.e. key to increment)''), Flush], stats)"
  by (simp_all add: stats_Set_def stats_SetNx_def stats_Get_def stats_Exists_def stats_Del_def
      stats_Incr_def stats_Decr_def stats_Count_def arity_error_eq)

lemma handleData_registered:
  "ToUpper name' = name \<Longrightarrow> name \<noteq> ''QUIT'' \<Longrightarrow> Commands ctx name = Some handler \<Longrightarrow>
   handleData ToUpper ctx (name' # args) client b = handler (GoByteSlices args) client b"
  by (simp add: handleData_def)

text \<open>One iteration of the loop of \<open>RunClient\<close>, by what the read and \<open>handleData\<close>
  gave: the session goes on with the next reads, or it ends.\<close>

lemma RunClient_Continue:
  "RunClient_iteration ToUpper rd ctx client b = Continue (ctx', client', b') \<Longrightarrow>
   RunClient stack ToUpper (rd # reads) ctx client b = RunClient stack ToUpper reads ctx' client' b'"
  by (simp add: RunClient_def)

lemma RunClient_Leave:
  "RunClient_iteration ToUpper rd ctx client b = Leave r \<Longrightarrow>
   RunClient stack ToUpper (rd # reads) ctx client b = Some (RunClient_deferred stack r)"
  by (simp add: RunClient_def)

lemma iteration_handled:
  "handleData ToUpper ctx data client b = (Returned None, client', b') \<Longrightarrow>
   RunClient_iteration ToUpper (ReadOk data) ctx client b = Continue (ctx, client', b')"
  by (simp add: RunClient_iteration_def)

lemma iteration_error:
  "handleData ToUpper ctx data client b = (Returned (Some err), client', b') \<Longrightarrow> err \<noteq> errQuit \<Longrightarrow>
   RunClient_iteration ToUpper (ReadOk data) ctx client b =
     Continue
       (ctx\<lparr>Events := Events ctx @
          [\<lparr>Level = ''error'', Message = ''accept error'', Err = Some err, Context = None\<rparr>]\<rparr>,
        client' @ [WriteError err, Flush], b')"
  by (simp add: RunClient_iteration_def send_event_def call_def)

lemma RunClient_read_error:
  "RunClient stack ToUpper (ReadErr err # reads) ctx client b =
     Some (Returned (),
       (if err = io_EOF then ctx
        else ctx\<lparr>Events := Events ctx @
               [\<lparr>Level = ''error'', Message = ''read error'', Err = Some err, Context = None\<rparr>]\<rparr>),
       client @ [Close], b)"
  by (simp add: RunClient_def RunClient_iteration_def RunClient_deferred_def call_def send_event_def)

lemma RunClient_loop_panicked:
  "RunClient_loop ToUpper reads ctx client b = Some (Panicked e, ctx', client', b') \<Longrightarrow>
   RunClient stack ToUpper reads ctx client b =
     Some (Returned (),
       ctx'\<lparr>Events := Events ctx' @
          [\<lparr>Level = ''fatal'', Message = ''client run panic'',
            Err = Some (errors_New_Sprintf_v e), Context = Some (take 4096 stack)\<rparr>]\<rparr>,
       client' @ [Close], b')"
  by (simp add: RunClient_def RunClient_deferred_def send_event_def call_def)

lemma RunClient_returns_closed:
  "RunClient stack ToUpper reads ctx client b = Some (r, ctx', client', b') \<Longrightarrow>
   r = Returned () \<and> client' \<noteq> [] \<and> last client' = Close"
  by (auto simp add: RunClient_def RunClient_deferred_def call_def split: prod.splits outcome.splits)

text \<open>After a sequence of lifecycle calls that did not panic, \<open>stats.quit\<close> is as the
  last call left it.\<close>

lemma lifecycle_quit:
  "lifecycle cs s0 = Inr stats \<Longrightarrow>
   quit stats = (if cs = [] then quit s0 else if last cs = CallUnload then ClosedChan else OpenChan)"
proof (induction cs s0 rule: lifecycle.induct)
  case (1 stats)
  then show ?case by simp
next
  case (2 cs stats)
  then show ?case by (cases cs) (auto simp add: Load_def)
next
  case (3 cs s)
  then show ?case
    by (cases cs) (auto simp add: Unload_def split: chan.splits)
qed

section \<open>C1: a dispatched SET request\<close>

text \<open>
  C1 has every dispatched \<open>SET\<close> request that carries a key and a value store the
  value under the key and reply with the new value as an integer. The code does not do
  that. \<open>handleData\<close> calls the handler with \<open>data[1:]\<close>, a \<open>[][]byte\<close>; in \<open>Set\<close> the
  assertion \<open>d, _ := data.([]interface{})\<close> fails on it and leaves \<open>d\<close> nil, so
  \<open>len(d) < 2\<close> holds whatever the request carries. Every request whose name upper-cases
  to \<open>SET\<close>, with any arguments, any store and any client, is answered with the error
  \<open>SET takes at least 2 parameters\<close> and a flush; the handler returns nil, \<open>mem.Set\<close> is
  not called and the backend is left as it was. The session loop stays running with no
  event. This is against the handler's own message, sent to a request with two
  parameters, and against the usage \<open>SET key 1234\<close> that \<open>RegisterBackend\<close> registers.
\<close>

theorem dispatched_SET_gets_arity_error:
  "ToUpper name = ''SET'' \<Longrightarrow>
   handleData ToUpper (snd (RegisterBackend ((M, m), None) app)) (name # args) client stats =
     (Returned None,
      client @ [WriteError (errors_New
        ''SET takes at least 2 parameters (i.e. key to set and value to set to)''), Flush],
      stats) \<and>
   RunClient_iteration ToUpper (ReadOk (name # args))
       (snd (RegisterBackend ((M, m), None) app)) client stats =
     Continue (snd (RegisterBackend ((M, m), None) app),
       client @ [WriteError (errors_New
         ''SET takes at least 2 parameters (i.e. key to set and value to set to)''), Flush],
       stats)"
proof -
  assume name: "ToUpper name = ''SET''"
  let ?ctx = "snd (RegisterBackend ((M, m), None) app)"
  have "handleData ToUpper ?ctx (name # args) client stats = stats_Set M (GoByteSlices args) client stats"
    using name by (rule handleData_registered) (simp_all add: registered_Commands)
  also have "\<dots> = (Returned None,
      client @ [WriteError (errors_New
        ''SET takes at least 2 parameters (i.e. key to set and value to set to)''), Flush],
      stats)"
    by (simp add: stats_arity assert_interface_slice_bytes)
  finally have handled: "handleData ToUpper ?ctx (name # args) client stats =
     (Returned None,
      client @ [WriteError (errors_New
        ''SET takes at least 2 parameters (i.e. key to set and value to set to)''), Flush],
      stats)" .
  from handled iteration_handled [OF handled] show ?thesis
    by simp
qed

text \<open>The request \<open>SET k 5\<close> on the empty in-memory store: the arity error, and nothing
  stored.\<close>

theorem dispatched_SET_gets_arity_error_witness:
  "handleData ascii_ToUpper (snd (RegisterBackend ((memory_Metrics, memory_empty), None) empty_context))
     [''SET'', ''k'', ''5''] [] \<lparr>quit = NilChan, timer = None, mem = memory_empty\<rparr> =
   (Returned None,
    [WriteError (errors_New ''SET takes at least 2 parameters (i.e. key to set and value to set to)''), Flush],
    \<lparr>quit = NilChan, timer = None, mem = memory_empty\<rparr>) \<and>
   RunClient_iteration ascii_ToUpper (ReadOk [''SET'', ''k'', ''5''])
     (snd (RegisterBackend ((memory_Metrics, memory_empty), None) empty_context)) []
     \<lparr>quit = NilChan, timer = None, mem = memory_empty\<rparr> =
   Continue (snd (RegisterBackend ((memory_Metrics, memory_empty), None) empty_context),
    [WriteError (errors_New ''SET takes at least 2 parameters (i.e. key to set and value to set to)''), Flush],
    \<lparr>quit = NilChan, timer = None, mem = memory_empty\<rparr>)"
  using dispatched_SET_gets_arity_error [of ascii_ToUpper "''SET''" memory_Metrics memory_empty
      empty_context "[''k'', ''5'']" "[]" "\<lparr>quit = NilChan, timer = None, mem = memory_empty\<rparr>"]
  by (simp add: ascii_ToUpper_examples)

section \<open>C2: a failed dispatch is reported and the session goes on\<close>

text \<open>
  C2. A decoded request \<open>name # args\<close> whose name does not upper-case to \<open>QUIT\<close>
  fails in \<open>handleData\<close> either because the registry has no entry for the upper-cased
  name (the error is \<open>errCmdNotFound\<close>, client and backend untouched) or because the
  registered handler returns an error \<open>err\<close>, leaving the client and the backend as
  \<open>client'\<close> and \<open>b'\<close>. (\<open>errQuit\<close> is a private variable of the protocol package, so a
  backend's handler returns some other error.) In both cases the iteration sends
  exactly one event \<open>{"error", "accept error", err, nil}\<close>, writes the error reply for
  \<open>err\<close>, flushes and stays in the loop, and \<open>RunClient\<close> goes on with the next reads of
  the same connection in that state.
\<close>

theorem dispatch_failure_reported_session_continues:
  assumes "ToUpper name \<noteq> ''QUIT''"
    and "(Commands ctx (ToUpper name) = None \<and> err = errCmdNotFound \<and> client' = client \<and> b' = b) \<or>
         (\<exists>handler. Commands ctx (ToUpper name) = Some handler \<and>
            handler (GoByteSlices args) client b = (Returned (Some err), client', b') \<and> err \<noteq> errQuit)"
  shows "RunClient_iteration ToUpper (ReadOk (name # args)) ctx client b =
           Continue
             (ctx\<lparr>Events := Events ctx @
                [\<lparr>Level = ''error'', Message = ''accept error'', Err = Some err, Context = None\<rparr>]\<rparr>,
              client' @ [WriteError err, Flush], b') \<and>
         RunClient stack ToUpper (ReadOk (name # args) # reads) ctx client b =
           RunClient stack ToUpper reads
             (ctx\<lparr>Events := Events ctx @
                [\<lparr>Level = ''error'', Message = ''accept error'', Err = Some err, Context = None\<rparr>]\<rparr>)
             (client' @ [WriteError err, Flush]) b'"
proof -
  have "handleData ToUpper ctx (name # args) client b = (Returned (Some err), client', b')"
    and "err \<noteq> errQuit"
    using assms by (auto simp add: handleData_def)
  then have step: "RunClient_iteration ToUpper (ReadOk (name # args)) ctx client b =
      Continue
        (ctx\<lparr>Events := Events ctx @
           [\<lparr>Level = ''error'', Message = ''accept error'', Err = Some err, Context = None\<rparr>]\<rparr>,
         client' @ [WriteError err, Flush], b')"
    by (rule iteration_error)
  from step RunClient_Continue [OF step] show ?thesis
    by simp
qed

text \<open>An unregistered \<open>FOO\<close>, and a handler that fails after a partial write; the peer
  then closes the stream.\<close>

theorem dispatch_failure_reported_session_continues_witness:
  "RunClient_iteration ascii_ToUpper (ReadOk [''FOO'']) (empty_context :: unit BroadcastContext) [] () =
     Continue
       (\<lparr>Commands = Map.empty,
         Events = [\<lparr>Level = ''error'', Message = ''accept error'', Err = Some errCmdNotFound, Context = None\<rparr>]\<rparr>,
        [WriteError errCmdNotFound, Flush], ()) \<and>
   RunClient ''goroutine 7 [running]'' ascii_ToUpper [ReadOk [''FOO''], ReadErr io_EOF]
      (empty_context :: unit BroadcastContext) [] () =
     Some (Returned (),
       \<lparr>Commands = Map.empty,
        Events = [\<lparr>Level = ''error'', Message = ''accept error'', Err = Some errCmdNotFound, Context = None\<rparr>]\<rparr>,
       [WriteError errCmdNotFound, Flush, Close], ()) \<and>
   RunClient ''goroutine 7 [running]'' ascii_ToUpper [ReadOk [''FOO'', ''a''], ReadErr io_EOF]
      \<lparr>Commands = [''FOO'' \<mapsto> (\<lambda>data client b. (Returned (Some (errors_New ''boom'')), client @ [WriteString ''partial''], b))],
       Events = []\<rparr> [] () =
     Some (Returned (),
       \<lparr>Commands = [''FOO'' \<mapsto> (\<lambda>data client b. (Returned (Some (errors_New ''boom'')), client @ [WriteString ''partial''], b))],
        Events = [\<lparr>Level = ''error'', Message = ''accept error'', Err = Some (errors_New ''boom''), Context = None\<rparr>]\<rparr>,
       [WriteString ''partial'', WriteError (errors_New ''boom''), Flush, Close], ())"
  using dispatch_failure_reported_session_continues [of ascii_ToUpper "''FOO''"
      "empty_context :: unit BroadcastContext" errCmdNotFound "[]" "[]" "()" "()" "[]"
      "''goroutine 7 [running]''" "[ReadErr io_EOF]"]
    dispatch_failure_reported_session_continues [of ascii_ToUpper "''FOO''"
      "\<lparr>Commands = [''FOO'' \<mapsto> (\<lambda>data client b. (Returned (Some (errors_New ''boom'')), client @ [WriteString ''partial''], b))],
       Events = []\<rparr> :: unit BroadcastContext" "errors_New ''boom''" "[WriteString ''partial'']" "[]" "()" "()" "[''a'']"
      "''goroutine 7 [running]''" "[ReadErr io_EOF]"]
  by (simp add: ascii_ToUpper_examples empty_context_def RunClient_read_error)

section \<open>C3: QUIT\<close>

text \<open>
  C3. For every decoded request whose first element upper-cases to \<open>QUIT\<close>, whatever
  its case and whatever arguments follow, \<open>RunClient\<close> writes the simple string
  \<open>OK\<close>, flushes, closes the client and returns. The result is the same for every
  registry (no lookup is made, and no handler runs even if one is registered under
  \<open>QUIT\<close>) and for every continuation of the input (no further read is made); no event
  is sent.
\<close>

theorem QUIT_acknowledged_and_closed:
  "ToUpper name = ''QUIT'' \<Longrightarrow>
   RunClient stack ToUpper (ReadOk (name # args) # reads) ctx client b =
     Some (Returned (), ctx, client @ [WriteString ''OK'', Flush, Close], b)"
  by (simp add: RunClient_def RunClient_iteration_def handleData_def RunClient_deferred_def call_def)

theorem QUIT_acknowledged_and_closed_witness:
  "RunClient ''goroutine 7 [running]'' ascii_ToUpper [ReadOk [''qUiT'', ''now''], ReadOk [''SET'', ''k'', ''1'']]
      \<lparr>Commands = [''QUIT'' \<mapsto> (\<lambda>data client b. (Returned None, client @ [WriteString ''handled''], b))],
       Events = []\<rparr> [] () =
     Some (Returned (),
       \<lparr>Commands = [''QUIT'' \<mapsto> (\<lambda>data client b. (Returned None, client @ [WriteString ''handled''], b))],
        Events = []\<rparr>,
       [WriteString ''OK'', Flush, Close], ())"
  using QUIT_acknowledged_and_closed [of ascii_ToUpper "''qUiT''" "''goroutine 7 [running]''" "[''now'']"
      "[ReadOk [''SET'', ''k'', ''1'']]"
      "\<lparr>Commands = [''QUIT'' \<mapsto> (\<lambda>data client b. (Returned None, client @ [WriteString ''handled''], b))],
       Events = []\<rparr> :: unit BroadcastContext" "[]" "()"]
  by (simp add: ascii_ToUpper_examples)

section \<open>C4: read errors\<close>

text \<open>
  C4. When \<open>ReadBulkPayload\<close> returns \<open>io.EOF\<close>, \<open>RunClient\<close> returns with no event
  sent and nothing written: the only call on the client is \<open>Close\<close>. When it returns
  any other error, exactly one event \<open>{"error", "read error", err, nil}\<close> is sent, no
  reply is written, and the client is closed; the rest of the input is not read.
\<close>

theorem read_error_closes_connection:
  "RunClient stack ToUpper (ReadErr err # reads) ctx client b =
     Some (Returned (),
       (if err = io_EOF then ctx
        else ctx\<lparr>Events := Events ctx @
               [\<lparr>Level = ''error'', Message = ''read error'', Err = Some err, Context = None\<rparr>]\<rparr>),
       client @ [Close], b)"
  by (simp add: RunClient_def RunClient_iteration_def RunClient_deferred_def call_def send_event_def)

theorem read_error_closes_connection_witness:
  "RunClient ''goroutine 7 [running]'' ascii_ToUpper [ReadErr io_EOF]
      (empty_context :: unit BroadcastContext) [] () =
     Some (Returned (), empty_context, [Close], ()) \<and>
   RunClient ''goroutine 7 [running]'' ascii_ToUpper [ReadErr (errors_New ''bad bulk length'')]
      (empty_context :: unit BroadcastContext) [] () =
     Some (Returned (),
       \<lparr>Commands = Map.empty,
        Events = [\<lparr>Level = ''error'', Message = ''read error'',
                   Err = Some (errors_New ''bad bulk length''), Context = None\<rparr>]\<rparr>,
       [Close], ())"
  using read_error_closes_connection [of "''goroutine 7 [running]''" ascii_ToUpper io_EOF "[]"
      "empty_context :: unit BroadcastContext" "[]" "()"]
    read_error_closes_connection [of "''goroutine 7 [running]''" ascii_ToUpper
      "errors_New ''bad bulk length''" "[]" "empty_context :: unit BroadcastContext" "[]" "()"]
  by (simp add: empty_context_def)

section \<open>C5: panics are recovered at the session boundary\<close>

text \<open>
  C5. A panic of the read or of \<open>handleData\<close> (an empty request, a panicking handler)
  inside the loop does not leave \<open>RunClient\<close>: the deferred function recovers it, sends
  exactly one event \<open>{"fatal", "client run panic", errors.New(fmt.Sprintf("%v", e)), buf}\<close>
  whose buffer is the captured stack trace (at most 4096 bytes), and closes the client.
  This holds for a panic in the current iteration and for a panic that leaves the loop
  in any later one. Whenever \<open>RunClient\<close> returns, it returns normally and the last call
  on the client is \<open>Close\<close>.
\<close>

theorem panic_recovered_connection_closed:
  "RunClient stack ToUpper (ReadPanic e # reads) ctx client b =
     Some (Returned (),
       ctx\<lparr>Events := Events ctx @
          [\<lparr>Level = ''fatal'', Message = ''client run panic'',
            Err = Some (errors_New_Sprintf_v e), Context = Some (take 4096 stack)\<rparr>]\<rparr>,
       client @ [Close], b) \<and>
   (handleData ToUpper ctx data client b = (Panicked e, client1, b1) \<longrightarrow>
    RunClient stack ToUpper (ReadOk data # reads) ctx client b =
     Some (Returned (),
       ctx\<lparr>Events := Events ctx @
          [\<lparr>Level = ''fatal'', Message = ''client run panic'',
            Err = Some (errors_New_Sprintf_v e), Context = Some (take 4096 stack)\<rparr>]\<rparr>,
       client1 @ [Close], b1)) \<and>
   (RunClient_loop ToUpper reads2 ctx client b = Some (Panicked e, ctx2, client2, b2) \<longrightarrow>
    RunClient stack ToUpper reads2 ctx client b =
     Some (Returned (),
       ctx2\<lparr>Events := Events ctx2 @
          [\<lparr>Level = ''fatal'', Message = ''client run panic'',
            Err = Some (errors_New_Sprintf_v e), Context = Some (take 4096 stack)\<rparr>]\<rparr>,
       client2 @ [Close], b2)) \<and>
   (RunClient stack ToUpper reads3 ctx client b = Some (r, ctx3, client3, b3) \<longrightarrow>
    r = Returned () \<and> client3 \<noteq> [] \<and> last client3 = Close)"
proof (intro conjI impI)
  show "RunClient stack ToUpper (ReadPanic e # reads) ctx client b =
     Some (Returned (),
       ctx\<lparr>Events := Events ctx @
          [\<lparr>Level = ''fatal'', Message = ''client run panic'',
            Err = Some (errors_New_Sprintf_v e), Context = Some (take 4096 stack)\<rparr>]\<rparr>,
       client @ [Close], b)"
    by (rule RunClient_loop_panicked) (simp add: RunClient_iteration_def)
next
  assume "handleData ToUpper ctx data client b = (Panicked e, client1, b1)"
  then have "RunClient_loop ToUpper (ReadOk data # reads) ctx client b = Some (Panicked e, ctx, client1, b1)"
    by (simp add: RunClient_iteration_def)
  then show "RunClient stack ToUpper (ReadOk data # reads) ctx client b =
     Some (Returned (),
       ctx\<lparr>Events := Events ctx @
          [\<lparr>Level = ''fatal'', Message = ''client run panic'',
            Err = Some (errors_New_Sprintf_v e), Context = Some (take 4096 stack)\<rparr>]\<rparr>,
       client1 @ [Close], b1)"
    by (rule RunClient_loop_panicked)
next
  assume "RunClient_loop ToUpper reads2 ctx client b = Some (Panicked e, ctx2, client2, b2)"
  then show "RunClient stack ToUpper reads2 ctx client b =
     Some (Returned (),
       ctx2\<lparr>Events := Events ctx2 @
          [\<lparr>Level = ''fatal'', Message = ''client run panic'',
            Err = Some (errors_New_Sprintf_v e), Context = Some (take 4096 stack)\<rparr>]\<rparr>,
       client2 @ [Close], b2)"
    by (rule RunClient_loop_panicked)
next
  assume r: "RunClient stack ToUpper reads3 ctx client b = Some (r, ctx3, client3, b3)"
  from RunClient_returns_closed [OF r] show "r = Returned ()" by simp
  from RunClient_returns_closed [OF r] show "client3 \<noteq> []" by simp
  from RunClient_returns_closed [OF r] show "last client3 = Close" by simp
qed

text \<open>A panicking read; an empty request, on which \<open>data[0]\<close> panics; and an empty
  request after an unknown command.\<close>

theorem panic_recovered_connection_closed_witness:
  "RunClient ''goroutine 7 [running]'' ascii_ToUpper [ReadPanic IndexOutOfRange, ReadOk [''QUIT'']]
      (empty_context :: unit BroadcastContext) [] () =
     Some (Returned (),
       \<lparr>Commands = Map.empty,
        Events = [\<lparr>Level = ''fatal'', Message = ''client run panic'',
            Err = Some (errors_New_Sprintf_v IndexOutOfRange), Context = Some ''goroutine 7 [running]''\<rparr>]\<rparr>,
       [Close], ()) \<and>
   RunClient ''goroutine 7 [running]'' ascii_ToUpper [ReadOk [], ReadOk [''QUIT'']]
      (empty_context :: unit BroadcastContext) [] () =
     Some (Returned (),
       \<lparr>Commands = Map.empty,
        Events = [\<lparr>Level = ''fatal'', Message = ''client run panic'',
            Err = Some (errors_New_Sprintf_v IndexOutOfRange), Context = Some ''goroutine 7 [running]''\<rparr>]\<rparr>,
       [Close], ()) \<and>
   RunClient ''goroutine 7 [running]'' ascii_ToUpper [ReadOk [''FOO''], ReadOk []]
      (empty_context :: unit BroadcastContext) [] () =
     Some (Returned (),
       \<lparr>Commands = Map.empty,
        Events = [\<lparr>Level = ''error'', Message = ''accept error'', Err = Some errCmdNotFound, Context = None\<rparr>,
          \<lparr>Level = ''fatal'', Message = ''client run panic'',
            Err = Some (errors_New_Sprintf_v IndexOutOfRange), Context = Some ''goroutine 7 [running]''\<rparr>]\<rparr>,
       [WriteError errCmdNotFound, Flush, Close], ())"
  using panic_recovered_connection_closed [of "''goroutine 7 [running]''" ascii_ToUpper IndexOutOfRange
      "[ReadOk [''QUIT'']]" "empty_context :: unit BroadcastContext" "[]" "()" "[]" "[]" "()"
      "[ReadOk [''FOO''], ReadOk []]"
      "\<lparr>Commands = Map.empty,
        Events = [\<lparr>Level = ''error'', Message = ''accept error'', Err = Some errCmdNotFound, Context = None\<rparr>]\<rparr>"
      "[WriteError errCmdNotFound, Flush]" "()"
      "[ReadErr io_EOF]" "Returned ()" "empty_context :: unit BroadcastContext" "[Close]" "()"]
  by (simp add: RunClient_iteration_def handleData_def empty_context_def ascii_ToUpper_examples
      send_event_def call_def RunClient_read_error)

section \<open>C6: missing arguments\<close>

text \<open>
  C6. Each of the eight registered commands that take arguments is listed with its
  handler, the least number of arguments its guard accepts and the text of its error.
  The handler is the one the registry holds under that name after \<open>RegisterBackend\<close>.
  Called with fewer arguments than that, it writes the error reply with that text
  (which names the minimum), flushes, leaves the backend as it was and returns nil. A
  request for the command with too few arguments therefore leaves the session running:
  the iteration stays in the loop with the context unchanged (no event is sent), and
  \<open>RunClient\<close> goes on with the next reads.
\<close>

theorem missing_arguments_arity_reply:
  assumes "(name, handler, n, msg) \<in> set
     [(''COUNT'', stats_Count M, 1, ''COUNTER takes at least 1 parameter (i.e. key to increment)''),
      (''INCR'', stats_Incr M, 1, ''INCR takes at least 1 parameter (i.e. key to increment)''),
      (''DECR'', stats_Decr M, 1, ''DECR takes at least 1 parameter (i.e. key to increment)''),
      (''DEL'', stats_Del M, 1, ''DEL takes at least 1 parameter (i.e. key to delete)''),
      (''EXISTS'', stats_Exists M, 1, ''EXISTS takes at least 1 parameter (i.e. key to find)''),
      (''GET'', stats_Get M, 1, ''GET takes at least 1 parameter (i.e. key to get)''),
      (''SET'', stats_Set M, 2, ''SET takes at least 2 parameters (i.e. key to set and value to set to)''),
      (''SETNX'', stats_SetNx M, 2,
       ''SETNX takes at least 2 parameters (i.e. key to set and value to set to, if not already set)'')]"
  shows "Commands (snd (RegisterBackend ((M, m), None) app)) name = Some handler \<and>
    (length (assert_interface_slice data) < n \<longrightarrow>
       handler data client stats =
         (Returned None, client @ [WriteError (errors_New msg), Flush], stats)) \<and>
    (ToUpper name' = name \<and> length args < n \<longrightarrow>
       RunClient_iteration ToUpper (ReadOk (name' # args))
         (snd (RegisterBackend ((M, m), None) app)) client stats =
       Continue (snd (RegisterBackend ((M, m), None) app),
         client @ [WriteError (errors_New msg), Flush], stats) \<and>
       RunClient stack ToUpper (ReadOk (name' # args) # reads)
         (snd (RegisterBackend ((M, m), None) app)) client stats =
       RunClient stack ToUpper reads
         (snd (RegisterBackend ((M, m), None) app))
         (client @ [WriteError (errors_New msg), Flush]) stats)"
proof -
  let ?ctx = "snd (RegisterBackend ((M, m), None) app)"
  have facts: "Commands ?ctx name = Some handler \<and> name \<noteq> ''QUIT'' \<and> 0 < n \<and>
      (\<forall>d. length (assert_interface_slice d) < n \<longrightarrow> handler d client stats =
        (Returned None, client @ [WriteError (errors_New msg), Flush], stats))"
    using assms
    apply (simp only: set_simps insert_iff empty_iff prod.inject)
    apply (elim disjE conjE FalseE)
           apply (simp_all add: registered_Commands stats_arity)
    done
  have session: "RunClient_iteration ToUpper (ReadOk (name' # args)) ?ctx client stats =
       Continue (?ctx, client @ [WriteError (errors_New msg), Flush], stats) \<and>
     RunClient stack ToUpper (ReadOk (name' # args) # reads) ?ctx client stats =
       RunClient stack ToUpper reads ?ctx (client @ [WriteError (errors_New msg), Flush]) stats"
    if "ToUpper name' = name"
  proof -
    have "handleData ToUpper ?ctx (name' # args) client stats = handler (GoByteSlices args) client stats"
      using that facts by (simp add: handleData_registered)
    also have "\<dots> = (Returned None, client @ [WriteError (errors_New msg), Flush], stats)"
      using facts by (simp add: assert_interface_slice_bytes)
    finally have step: "RunClient_iteration ToUpper (ReadOk (name' # args)) ?ctx client stats =
        Continue (?ctx, client @ [WriteError (errors_New msg), Flush], stats)"
      by (rule iteration_handled)
    from step RunClient_Continue [OF step] show ?thesis
      by simp
  qed
  show ?thesis
    using facts session by blast
qed

text \<open>\<open>SET\<close> with a key and no value: the handler alone, and the request \<open>set k\<close> in a
  session that the peer then closes.\<close>

theorem missing_arguments_arity_reply_witness:
  "stats_Set memory_Metrics (GoInterfaceSlice [GoString ''k'']) []
      \<lparr>quit = NilChan, timer = None, mem = memory_empty\<rparr> =
     (Returned None,
      [WriteError (errors_New ''SET takes at least 2 parameters (i.e. key to set and value to set to)''), Flush],
      \<lparr>quit = NilChan, timer = None, mem = memory_empty\<rparr>) \<and>
   RunClient ''goroutine 7 [running]'' ascii_ToUpper [ReadOk [''set'', ''k''], ReadErr io_EOF]
      (snd (RegisterBackend ((memory_Metrics, memory_empty), None) empty_context)) []
      \<lparr>quit = NilChan, timer = None, mem = memory_empty\<rparr> =
     Some (Returned (),
       snd (RegisterBackend ((memory_Metrics, memory_empty), None) empty_context),
       [WriteError (errors_New ''SET takes at least 2 parameters (i.e. key to set and value to set to)''), Flush, Close],
       \<lparr>quit = NilChan, timer = None, mem = memory_empty\<rparr>)"
  using missing_arguments_arity_reply [of "''SET''" "stats_Set memory_Metrics" 2
      "''SET takes at least 2 parameters (i.e. key to set and value to set to)''" memory_Metrics
      memory_empty empty_context "GoInterfaceSlice [GoString ''k'']" "[]"
      "\<lparr>quit = NilChan, timer = None, mem = memory_empty\<rparr>" ascii_ToUpper "''set''" "[''k'']"
      "''goroutine 7 [running]''" "[ReadErr io_EOF]"]
  by (simp add: ascii_ToUpper_examples assert_interface_slice_def RunClient_read_error)

section \<open>C7: dispatched INCR and DECR requests\<close>

text \<open>
  C7 has every \<open>INCR\<close> (\<open>DECR\<close>) request add (subtract) the default delta 1, or the
  delta the request carries, and reply with the resulting value as an integer. The
  code does not do that, for the reason given for \<open>SET\<close>: \<open>handleData\<close> hands the handler
  a \<open>[][]byte\<close>, the assertion \<open>data.([]interface{})\<close> in \<open>Incr\<close> and \<open>Decr\<close> fails and
  leaves \<open>d\<close> nil, and \<open>len(d) == 0\<close> holds whatever the request carries. Every request
  whose name upper-cases to \<open>INCR\<close> or \<open>DECR\<close>, with any arguments, any store and any
  client, is answered with the error \<open>INCR\<close> (\<open>DECR\<close>) \<open>takes at least 1 parameter\<close> and
  a flush; the handler returns nil, no method of the store is called and the backend
  is left as it was. This is against the handlers' own messages and against the usage
  \<open>INCR key [1]\<close> and \<open>DECR key [1]\<close> that \<open>RegisterBackend\<close> registers.
\<close>

theorem dispatched_INCR_DECR_get_arity_error:
  "(ToUpper name = ''INCR'' \<longrightarrow>
    handleData ToUpper (snd (RegisterBackend ((M, m), None) app)) (name # args) client stats =
      (Returned None,
       client @ [WriteError (errors_New
         ''INCR takes at least 1 parameter (i.e. key to increment)''), Flush],
       stats)) \<and>
   (ToUpper name = ''DECR'' \<longrightarrow>
    handleData ToUpper (snd (RegisterBackend ((M, m), None) app)) (name # args) client stats =
      (Returned None,
       client @ [WriteError (errors_New
         ''DECR takes at least 1 parameter (i.e. key to increment)''), Flush],
       stats))"
proof (intro conjI impI)
  let ?ctx = "snd (RegisterBackend ((M, m), None) app)"
  assume name: "ToUpper name = ''INCR''"
  have "handleData ToUpper ?ctx (name # args) client stats = stats_Incr M (GoByteSlices args) client stats"
    using name by (rule handleData_registered) (simp_all add: registered_Commands)
  then show "handleData ToUpper ?ctx (name # args) client stats =
      (Returned None,
       client @ [WriteError (errors_New
         ''INCR takes at least 1 parameter (i.e. key to increment)''), Flush],
       stats)"
    by (simp add: stats_arity assert_interface_slice_bytes)
next
  let ?ctx = "snd (RegisterBackend ((M, m), None) app)"
  assume name: "ToUpper name = ''DECR''"
  have "handleData ToUpper ?ctx (name # args) client stats = stats_Decr M (GoByteSlices args) client stats"
    using name by (rule handleData_registered) (simp_all add: registered_Commands)
  then show "handleData ToUpper ?ctx (name # args) client stats =
      (Returned None,
       client @ [WriteError (errors_New
         ''DECR takes at least 1 parameter (i.e. key to increment)''), Flush],
       stats)"
    by (simp add: stats_arity assert_interface_slice_bytes)
qed

text \<open>The requests \<open>INCR hits\<close> and \<open>DECR hits 2\<close> on the in-memory store with \<open>hits\<close> at
  41: the arity error, and 41 stays.\<close>

theorem dispatched_INCR_DECR_get_arity_error_witness:
  "handleData ascii_ToUpper (snd (RegisterBackend ((memory_Metrics, memory_empty), None) empty_context))
     [''INCR'', ''hits''] []
     \<lparr>quit = NilChan, timer = None, mem = \<lparr>vals = [(''hits'', 41)], counters = []\<rparr>\<rparr> =
   (Returned None,
    [WriteError (errors_New ''INCR takes at least 1 parameter (i.e. key to increment)''), Flush],
    \<lparr>quit = NilChan, timer = None, mem = \<lparr>vals = [(''hits'', 41)], counters = []\<rparr>\<rparr>) \<and>
   handleData ascii_ToUpper (snd (RegisterBackend ((memory_Metrics, memory_empty), None) empty_context))
     [''DECR'', ''hits'', ''2''] []
     \<lparr>quit = NilChan, timer = None, mem = \<lparr>vals = [(''hits'', 41)], counters = []\<rparr>\<rparr> =
   (Returned None,
    [WriteError (errors_New ''DECR takes at least 1 parameter (i.e. key to increment)''), Flush],
    \<lparr>quit = NilChan, timer = None, mem = \<lparr>vals = [(''hits'', 41)], counters = []\<rparr>\<rparr>)"
  using dispatched_INCR_DECR_get_arity_error [of ascii_ToUpper "''INCR''" memory_Metrics memory_empty
      empty_context "[''hits'']" "[]"
      "\<lparr>quit = NilChan, timer = None, mem = \<lparr>vals = [(''hits'', 41)], counters = []\<rparr>\<rparr>"]
    dispatched_INCR_DECR_get_arity_error [of ascii_ToUpper "''DECR''" memory_Metrics memory_empty
      empty_context "[''hits'', ''2'']" "[]"
      "\<lparr>quit = NilChan, timer = None, mem = \<lparr>vals = [(''hits'', 41)], counters = []\<rparr>\<rparr>"]
  by (simp add: ascii_ToUpper_examples)

section \<open>C9: the command name is case-insensitive\<close>

text \<open>
  C9. \<open>handleData\<close> upper-cases the first element before the \<open>QUIT\<close> test and the
  registry lookup and uses it for nothing else, so a request and the same request
  with its first element replaced by its upper-cased form are handled alike, by
  \<open>handleData\<close> and by the whole session. Upper-casing an upper-cased name changes
  nothing: this property of \<open>strings.ToUpper\<close> is the hypothesis.
\<close>

theorem command_name_case_insensitive:
  "ToUpper (ToUpper name) = ToUpper name \<Longrightarrow>
   handleData ToUpper ctx (name # args) client b = handleData ToUpper ctx (ToUpper name # args) client b \<and>
   RunClient_iteration ToUpper (ReadOk (name # args)) ctx client b =
   RunClient_iteration ToUpper (ReadOk (ToUpper name # args)) ctx client b \<and>
   RunClient stack ToUpper (ReadOk (name # args) # reads) ctx client b =
   RunClient stack ToUpper (ReadOk (ToUpper name # args) # reads) ctx client b"
  by (simp add: handleData_def RunClient_def RunClient_iteration_def)

theorem command_name_case_insensitive_witness:
  "handleData ascii_ToUpper (snd (RegisterBackend ((memory_Metrics, memory_empty), None) empty_context))
      [''set'', ''k'', ''5''] [] \<lparr>quit = NilChan, timer = None, mem = memory_empty\<rparr> =
   handleData ascii_ToUpper (snd (RegisterBackend ((memory_Metrics, memory_empty), None) empty_context))
      [''SET'', ''k'', ''5''] [] \<lparr>quit = NilChan, timer = None, mem = memory_empty\<rparr> \<and>
   RunClient ''goroutine 7 [running]'' ascii_ToUpper [ReadOk [''set'', ''k'', ''5''], ReadErr io_EOF]
      (snd (RegisterBackend ((memory_Metrics, memory_empty), None) empty_context)) []
      \<lparr>quit = NilChan, timer = None, mem = memory_empty\<rparr> =
   RunClient ''goroutine 7 [running]'' ascii_ToUpper [ReadOk [''SET'', ''k'', ''5''], ReadErr io_EOF]
      (snd (RegisterBackend ((memory_Metrics, memory_empty), None) empty_context)) []
      \<lparr>quit = NilChan, timer = None, mem = memory_empty\<rparr>"
  using command_name_case_insensitive [of ascii_ToUpper "''set''"
      "snd (RegisterBackend ((memory_Metrics, memory_empty), None) empty_context)"
      "[''k'', ''5'']" "[]" "\<lparr>quit = NilChan, timer = None, mem = memory_empty\<rparr>"
      "''goroutine 7 [running]''" "[ReadErr io_EOF]"]
  by (simp add: ascii_ToUpper_idem ascii_ToUpper_examples)

section \<open>C10: when Unload panics\<close>

text \<open>
  C10, as the code has it. On a backend whose \<open>quit\<close> starts nil, after any sequence of
  \<open>Load\<close> and \<open>Unload\<close> calls that did not panic, \<open>Unload\<close> returns nil (closing the
  channel) exactly when the last call was \<open>Load\<close>, however many calls came before it.
  Before any call it closes a nil channel and panics; right after an \<open>Unload\<close> it
  closes the closed channel and panics, so \<open>Unload\<close> is not idempotent.
\<close>

theorem Unload_panics_unless_last_call_Load:
  assumes "quit s0 = NilChan" and "lifecycle cs s0 = Inr stats"
  shows "Unload stats =
     (if cs = [] then (Panicked CloseOfNilChannel, stats)
      else if last cs = CallUnload then (Panicked CloseOfClosedChannel, stats)
      else (Returned None, stats\<lparr>quit := ClosedChan\<rparr>))"
  using lifecycle_quit [OF assms(2)] assms(1)
  by (simp add: Unload_def split: lifecycle_call.splits)

theorem Unload_panics_unless_last_call_Load_witness:
  "Unload \<lparr>quit = NilChan, timer = None, mem = ()\<rparr> =
     (Panicked CloseOfNilChannel, \<lparr>quit = NilChan, timer = None, mem = ()\<rparr>) \<and>
   Unload \<lparr>quit = OpenChan, timer = Some (NewTicker (5 * Second)), mem = ()\<rparr> =
     (Returned None, \<lparr>quit = ClosedChan, timer = Some (NewTicker (5 * Second)), mem = ()\<rparr>) \<and>
   Unload \<lparr>quit = ClosedChan, timer = Some (NewTicker (5 * Second)), mem = ()\<rparr> =
     (Panicked CloseOfClosedChannel, \<lparr>quit = ClosedChan, timer = Some (NewTicker (5 * Second)), mem = ()\<rparr>)"
  using Unload_panics_unless_last_call_Load [of "\<lparr>quit = NilChan, timer = None, mem = ()\<rparr>" "[]"
      "\<lparr>quit = NilChan, timer = None, mem = ()\<rparr>"]
    Unload_panics_unless_last_call_Load [of "\<lparr>quit = NilChan, timer = None, mem = ()\<rparr>" "[CallLoad]"
      "\<lparr>quit = OpenChan, timer = Some (NewTicker (5 * Second)), mem = ()\<rparr>"]
    Unload_panics_unless_last_call_Load [of "\<lparr>quit = NilChan, timer = None, mem = ()\<rparr>"
      "[CallLoad, CallUnload]"
      "\<lparr>quit = ClosedChan, timer = Some (NewTicker (5 * Second)), mem = ()\<rparr>"]
  by (simp add: Load_def Unload_def)

text \<open>
  C10 as stated ties a safe \<open>Unload\<close> to exactly one earlier \<open>Load\<close> and no earlier
  \<open>Unload\<close>, and has every second \<open>Unload\<close> panic. Neither holds: after two \<open>Load\<close>
  calls, and after \<open>Load\<close>, \<open>Unload\<close>, \<open>Load\<close>, the next \<open>Unload\<close> returns without a
  panic, since each \<open>Load\<close> stores a new open channel.
\<close>

theorem Unload_safe_after_repeated_Load:
  "lifecycle [CallLoad, CallLoad, CallUnload] \<lparr>quit = NilChan, timer = None, mem = ()\<rparr> =
     Inr \<lparr>quit = ClosedChan, timer = Some (NewTicker (5 * Second)), mem = ()\<rparr> \<and>
   lifecycle [CallLoad, CallUnload, CallLoad, CallUnload] \<lparr>quit = NilChan, timer = None, mem = ()\<rparr> =
     Inr \<lparr>quit = ClosedChan, timer = Some (NewTicker (5 * Second)), mem = ()\<rparr>"
  by (simp add: Load_def Unload_def)

section \<open>Further properties of the stats backend\<close>

text \<open>
  X1. The other handlers that reply with an integer read their arguments the same
  way: \<open>SETNX\<close> a \<open>string\<close> key and an \<open>int64\<close> value, \<open>GET\<close>, \<open>EXISTS\<close> and \<open>DEL\<close> a
  \<open>string\<close> key, \<open>COUNT\<close> a \<open>string\<close> key and an optional \<open>int64\<close> delta. Each calls
  the store method of its name (\<open>Counter\<close> or \<open>CounterBy\<close> for \<open>COUNT\<close>) and replies
  with the integer it returned, or hands its error back.
\<close>

theorem stats_integer_handlers_typed_arguments:
  "stats_SetNx M (GoInterfaceSlice (GoString key # GoInt64 val # rest)) client stats =
     integer_reply (mem_SetNx M key val (mem stats)) client stats \<and>
   stats_Get M (GoInterfaceSlice (GoString key # rest)) client stats =
     integer_reply (mem_Get M key (mem stats)) client stats \<and>
   stats_Exists M (GoInterfaceSlice (GoString key # rest)) client stats =
     integer_reply (mem_Exists M key (mem stats)) client stats \<and>
   stats_Del M (GoInterfaceSlice (GoString key # rest)) client stats =
     integer_reply (mem_Del M key (mem stats)) client stats \<and>
   stats_Count M (GoInterfaceSlice [GoString key]) client stats =
     integer_reply (mem_Counter M key (mem stats)) client stats \<and>
   stats_Count M (GoInterfaceSlice (GoString key # GoInt64 val # rest)) client stats =
     integer_reply (mem_CounterBy M key val (mem stats)) client stats"
  by (simp add: stats_SetNx_def stats_Get_def stats_Exists_def stats_Del_def stats_Count_def
      assert_interface_slice_def assert_string_def assert_int64_def return_FlushInt_eq)

text \<open>
  X2. \<open>RegisterBackend\<close> registers exactly the nine commands of \<open>commandHelp\<close>, each
  under its name with the handler at the same index of \<open>commands\<close>, and returns a
  backend whose \<open>quit\<close> and \<open>timer\<close> are nil; when \<open>NewMemoryBackend\<close> fails it returns
  the error and registers nothing.
\<close>

theorem RegisterBackend_registers_nine_commands:
  "dom (Commands (snd (RegisterBackend ((M, m), None) empty_context))) =
     {''COUNT'', ''COUNTERS'', ''INCR'', ''DECR'', ''DEL'', ''EXISTS'', ''GET'', ''SET'', ''SETNX''} \<and>
   map (Commands (snd (RegisterBackend ((M, m), None) app))) (map Name commandHelp) =
     map Some (commands M) \<and>
   fst (RegisterBackend ((M, m), None) app) = (Some \<lparr>quit = NilChan, timer = None, mem = m\<rparr>, None) \<and>
   RegisterBackend ((M, m), Some e) app = ((None, Some e), app)"
proof (intro conjI)
  show "dom (Commands (snd (RegisterBackend ((M, m), None) empty_context))) =
     {''COUNT'', ''COUNTERS'', ''INCR'', ''DECR'', ''DEL'', ''EXISTS'', ''GET'', ''SET'', ''SETNX''}"
    by (simp add: registered_Commands empty_context_def insert_commute)
  show "map (Commands (snd (RegisterBackend ((M, m), None) app))) (map Name commandHelp) =
     map Some (commands M)"
    by (simp add: registered_Commands commandHelp_def commands_def)
  show "fst (RegisterBackend ((M, m), None) app) = (Some \<lparr>quit = NilChan, timer = None, mem = m\<rparr>, None)"
    by (simp add: RegisterBackend_def)
  show "RegisterBackend ((M, m), Some e) app = ((None, Some e), app)"
    by (simp add: RegisterBackend_def)
qed

text \<open>
  X3. The \<open>Set\<close> handler itself, called with a \<open>[]interface{}\<close> whose first element is a
  \<open>string\<close> key and whose second is an \<open>int64\<close> value (further elements are ignored),
  calls the store's \<open>Set(key, int(value))\<close>; it replies with the integer \<open>Set\<close> returned
  followed by a flush and returns nil, or, when \<open>Set\<close> returns an error, writes nothing
  and returns the error.
\<close>

theorem stats_Set_typed_arguments:
  "stats_Set M (GoInterfaceSlice (GoString key # GoInt64 val # rest)) client stats =
     integer_reply (mem_Set M key val (mem stats)) client stats"
  by (simp add: stats_Set_def assert_interface_slice_def assert_string_def assert_int64_def
      return_FlushInt_eq)

text \<open>On the in-memory store: \<open>SET k 5\<close> with typed arguments stores 5 under \<open>k\<close> and
  replies 5.\<close>

theorem stats_Set_typed_arguments_witness:
  "stats_Set memory_Metrics (GoInterfaceSlice [GoString ''k'', GoInt64 5]) []
      \<lparr>quit = NilChan, timer = None, mem = memory_empty\<rparr> =
   (Returned None, [WriteInt64 5, Flush],
      \<lparr>quit = NilChan, timer = None, mem = \<lparr>vals = [(''k'', 5)], counters = []\<rparr>\<rparr>)"
  using stats_Set_typed_arguments [of memory_Metrics "''k''" 5 "[]" "[]"
      "\<lparr>quit = NilChan, timer = None, mem = memory_empty\<rparr>"]
  by (simp add: integer_reply_def memory_Metrics_def memory_empty_def)

text \<open>
  X4. The \<open>Incr\<close> and \<open>Decr\<close> handlers themselves, called with a \<open>[]interface{}\<close> that
  holds only a \<open>string\<close> key, call the store's \<open>Incr(key)\<close> and \<open>Decr(key)\<close>; when an
  \<open>int64\<close> delta follows the key they call \<open>IncrBy(key, int(delta))\<close> and \<open>DecrBy\<close>
  instead. They reply with the integer the store returned followed by a flush, or
  return the store's error without writing.
\<close>

theorem stats_Incr_Decr_typed_arguments:
  "stats_Incr M (GoInterfaceSlice [GoString key]) client stats =
     integer_reply (mem_Incr M key (mem stats)) client stats \<and>
   stats_Incr M (GoInterfaceSlice (GoString key # GoInt64 delta # rest)) client stats =
     integer_reply (mem_IncrBy M key delta (mem stats)) client stats \<and>
   stats_Decr M (GoInterfaceSlice [GoString key]) client stats =
     integer_reply (mem_Decr M key (mem stats)) client stats \<and>
   stats_Decr M (GoInterfaceSlice (GoString key # GoInt64 delta # rest)) client stats =
     integer_reply (mem_DecrBy M key delta (mem stats)) client stats"
  by (simp add: stats_Incr_def stats_Decr_def assert_interface_slice_def assert_string_def
      assert_int64_def return_FlushInt_eq)

text \<open>On the in-memory store, with \<open>hits\<close> at 41: \<open>INCR hits\<close> replies 42,
  \<open>INCR hits 9\<close> replies 50, \<open>DECR hits\<close> replies 40, \<open>DECR hits 9\<close> replies 32.\<close>

theorem stats_Incr_Decr_typed_arguments_witness:
  "stats_Incr memory_Metrics (GoInterfaceSlice [GoString ''hits'']) []
      \<lparr>quit = NilChan, timer = None, mem = \<lparr>vals = [(''hits'', 41)], counters = []\<rparr>\<rparr> =
     (Returned None, [WriteInt64 42, Flush],
      \<lparr>quit = NilChan, timer = None, mem = \<lparr>vals = [(''hits'', 42)], counters = []\<rparr>\<rparr>) \<and>
   stats_Incr memory_Metrics (GoInterfaceSlice [GoString ''hits'', GoInt64 9]) []
      \<lparr>quit = NilChan, timer = None, mem = \<lparr>vals = [(''hits'', 41)], counters = []\<rparr>\<rparr> =
     (Returned None, [WriteInt64 50, Flush],
      \<lparr>quit = NilChan, timer = None, mem = \<lparr>vals = [(''hits'', 50)], counters = []\<rparr>\<rparr>) \<and>
   stats_Decr memory_Metrics (GoInterfaceSlice [GoString ''hits'']) []
      \<lparr>quit = NilChan, timer = None, mem = \<lparr>vals = [(''hits'', 41)], counters = []\<rparr>\<rparr> =
     (Returned None, [WriteInt64 40, Flush],
      \<lparr>quit = NilChan, timer = None, mem = \<lparr>vals = [(''hits'', 40)], counters = []\<rparr>\<rparr>) \<and>
   stats_Decr memory_Metrics (GoInterfaceSlice [GoString ''hits'', GoInt64 9]) []
      \<lparr>quit = NilChan, timer = None, mem = \<lparr>vals = [(''hits'', 41)], counters = []\<rparr>\<rparr> =
     (Returned None, [WriteInt64 32, Flush],
      \<lparr>quit = NilChan, timer = None, mem = \<lparr>vals = [(''hits'', 32)], counters = []\<rparr>\<rparr>)"
  using stats_Incr_Decr_typed_arguments [of memory_Metrics "''hits''" "[]"
      "\<lparr>quit = NilChan, timer = None, mem = \<lparr>vals = [(''hits'', 41)], counters = []\<rparr>\<rparr>" 9 "[]"]
  by (simp add: integer_reply_def memory_Metrics_def memory_IncrBy_def lookup0_def)

end
